theory Spec2Isabelle
  imports Complex_Main
begin

section \<open>Python and numpy primitives used by the audio processing service\<close>

text \<open>
  The service (\<^verbatim>\<open>src/backend/services/audio_processing.py\<close>) computes on numpy arrays of
  floating-point samples. Samples and every other Python float are modelled as
  \<^typ>\<open>real\<close>, Python integers (sample rates, lengths computed by \<^verbatim>\<open>int(...)\<close>) as
  \<^typ>\<open>int\<close>: rounding error of the binary floating-point operations is not modelled.
  Every exception the code or numpy can raise is a value \<open>Inl e\<close>.
\<close>

datatype error =
    ValueError string
  | ZeroDivisionError
  | IndexError
  | ReadError

text \<open>Python's \<^verbatim>\<open>int(x)\<close> on a float: truncation toward zero.\<close>

definition py_int :: "real \<Rightarrow> int" where
  "py_int x = (if 0 \<le> x then \<lfloor>x\<rfloor> else \<lceil>x\<rceil>)"

text \<open>Python's \<^verbatim>\<open>a / b\<close> on two integers: true division, raising on a zero divisor.\<close>

definition py_truediv :: "int \<Rightarrow> int \<Rightarrow> error + real" where
  "py_truediv a b = (if b = 0 then Inl ZeroDivisionError else Inr (real_of_int a / real_of_int b))"

text \<open>
  An array is one-dimensional (\<open>Arr1\<close>, the samples of a mono buffer) or two-dimensional
  (\<open>Arr2 n cols\<close>: shape \<open>(n, length cols)\<close>, stored column by column, one column per
  channel). The row count is kept explicitly because numpy knows it even when there is no
  column.
\<close>

datatype ndarray = Arr1 "real list" | Arr2 nat "real list list"

fun len :: "ndarray \<Rightarrow> nat" where
  "len (Arr1 xs) = length xs"
| "len (Arr2 n cols) = n"

fun columns :: "ndarray \<Rightarrow> real list list" where
  "columns (Arr1 xs) = [xs]"
| "columns (Arr2 n cols) = cols"

fun wf_array :: "ndarray \<Rightarrow> bool" where
  "wf_array (Arr1 xs) = True"
| "wf_array (Arr2 n cols) = list_all (\<lambda>c. length c = n) cols"

fun elems :: "ndarray \<Rightarrow> real list" where
  "elems (Arr1 xs) = xs"
| "elems (Arr2 n cols) = concat cols"

text \<open>\<^verbatim>\<open>array * scalar\<close>.\<close>

fun np_scale :: "ndarray \<Rightarrow> real \<Rightarrow> ndarray" where
  "np_scale (Arr1 xs) g = Arr1 (map (\<lambda>x. x * g) xs)"
| "np_scale (Arr2 n cols) g = Arr2 n (map (map (\<lambda>x. x * g)) cols)"

text \<open>A loop body that may raise, run over a list: the first exception ends the loop.\<close>

fun traverse :: "('a \<Rightarrow> error + 'b) \<Rightarrow> 'a list \<Rightarrow> error + 'b list" where
  "traverse f [] = Inr []"
| "traverse f (x # xs) =
     (case f x of
        Inl e \<Rightarrow> Inl e
      | Inr y \<Rightarrow> (case traverse f xs of Inl e \<Rightarrow> Inl e | Inr ys \<Rightarrow> Inr (y # ys)))"

text \<open>\<^verbatim>\<open>np.arange(n)\<close> and \<^verbatim>\<open>np.linspace(start, stop, num)\<close> (endpoint included).\<close>

definition np_arange :: "nat \<Rightarrow> real list" where
  "np_arange n = map real [0..<n]"

definition np_linspace :: "real \<Rightarrow> real \<Rightarrow> int \<Rightarrow> error + real list" where
  "np_linspace start stop num =
     (if num < 0 then Inl (ValueError ''Number of samples must be non-negative'')
      else if num = 1 then Inr [start]
      else Inr (map (\<lambda>i. start + real i * ((stop - start) / real (nat num - 1))) [0..<nat num]))"

text \<open>
  \<^verbatim>\<open>np.interp(x, xp, fp)\<close> for increasing sample points: piecewise linear, constant
  outside the range of \<open>xp\<close>.
\<close>

fun interp_at :: "real \<Rightarrow> (real \<times> real) list \<Rightarrow> real" where
  "interp_at x [] = 0"
| "interp_at x [(x0, y0)] = y0"
| "interp_at x ((x0, y0) # (x1, y1) # ps) =
     (if x \<le> x0 then y0
      else if x < x1 then (y1 - y0) / (x1 - x0) * (x - x0) + y0
      else interp_at x ((x1, y1) # ps))"

definition np_interp :: "real list \<Rightarrow> real list \<Rightarrow> real list \<Rightarrow> error + real list" where
  "np_interp x xp fp =
     (if xp = [] then Inl (ValueError ''array of sample points is empty'')
      else if length fp \<noteq> length xp then Inl (ValueError ''fp and xp are not of the same length'')
      else Inr (map (\<lambda>v. interp_at v (zip xp fp)) x))"

text \<open>\<^verbatim>\<open>np.zeros((rows, cols))\<close>: a negative dimension raises.\<close>

definition np_zeros2 :: "int \<Rightarrow> nat \<Rightarrow> error + ndarray" where
  "np_zeros2 rows cols =
     (if rows < 0 then Inl (ValueError ''negative dimensions are not allowed'')
      else Inr (Arr2 (nat rows) (replicate cols (replicate (nat rows) 0))))"

text \<open>\<^verbatim>\<open>np.max\<close> of a flat list of values: an empty array has no maximum.\<close>

fun np_max :: "real list \<Rightarrow> error + real" where
  "np_max [] = Inl (ValueError ''zero-size array to reduction operation maximum which has no identity'')"
| "np_max (x # xs) = Inr (fold max xs x)"


section \<open>Resampling\<close>

text \<open>
  One channel of \<^verbatim>\<open>resample_audio\<close> (lines 123-125 and 128-130): the index grid and the
  interpolation.
\<close>

definition resample_channel :: "int \<Rightarrow> real list \<Rightarrow> error + real list" where
  "resample_channel new_length channel_data =
     (case np_linspace 0 (real_of_int (int (length channel_data) - 1)) new_length of
        Inl e \<Rightarrow> Inl e
      | Inr x_resampled \<Rightarrow> np_interp x_resampled (np_arange (length channel_data)) channel_data)"

text \<open>
  \<^verbatim>\<open>resample_audio\<close> (lines 84-135). In the multi-channel branch the output array is
  allocated first; each interpolated channel has \<open>new_length\<close> samples, so its assignment
  into the column never fails on its own.
\<close>

definition resample_audio :: "ndarray \<Rightarrow> int \<Rightarrow> int \<Rightarrow> error + ndarray" where
  "resample_audio audio_data original_sample_rate target_sample_rate =
     (if original_sample_rate = target_sample_rate then Inr audio_data
      else
        (case py_truediv target_sample_rate original_sample_rate of
           Inl e \<Rightarrow> Inl e
         | Inr ratio \<Rightarrow>
             (let new_length = py_int (real (len audio_data) * ratio) in
              (case audio_data of
                 Arr2 n cols \<Rightarrow>
                   (case np_zeros2 new_length (length cols) of
                      Inl e \<Rightarrow> Inl e
                    | Inr resampled \<Rightarrow>
                        (case traverse (resample_channel new_length) cols of
                           Inl e \<Rightarrow> Inl e
                         | Inr chans \<Rightarrow> Inr (Arr2 (len resampled) chans)))
               | Arr1 xs \<Rightarrow>
                   (case resample_channel new_length xs of
                      Inl e \<Rightarrow> Inl e
                    | Inr resampled \<Rightarrow> Inr (Arr1 resampled))))))"


section \<open>Normalization\<close>

text \<open>\<^verbatim>\<open>normalize_audio\<close> (lines 137-170); \<^verbatim>\<open>10 ** (target_db / 20)\<close> is a float power.\<close>

definition normalize_audio :: "ndarray \<Rightarrow> real \<Rightarrow> error + ndarray" where
  "normalize_audio audio_data target_db =
     (case np_max (map abs (elems audio_data)) of
        Inl e \<Rightarrow> Inl e
      | Inr peak \<Rightarrow>
          if peak = 0 then Inr audio_data
          else
            (let target_linear = 10 powr (target_db / 20);
                 gain = target_linear / peak
             in Inr (np_scale audio_data gain)))"

section \<open>Mixing\<close>

text \<open>
  A track descriptor is a dictionary read with \<^verbatim>\<open>track.get(key, default)\<close>: every key
  may be absent. \<open>volume\<close> and \<open>pan\<close> are percentages.
\<close>

record track =
  file_path :: "string option"
  volume :: "real option"
  pan :: "real option"
  muted :: "bool option"
  solo :: "bool option"

text \<open>
  The files on disk, as \<^verbatim>\<open>os.path.exists\<close> and \<^verbatim>\<open>read_audio_file\<close> see them: no
  file, a file the decoder raises on, or decoded samples with their sample rate.
\<close>

datatype file_state = Missing | Corrupt | Audio ndarray int

type_synonym filesystem = "string \<Rightarrow> file_state"

text \<open>The dictionaries appended to \<^verbatim>\<open>track_audio_data\<close> (lines 216-222).\<close>

record track_data =
  td_audio :: ndarray
  td_sample_rate :: int
  td_volume :: real
  td_pan :: real
  td_solo :: bool

definition get_default :: "'a option \<Rightarrow> 'a \<Rightarrow> 'a" where
  "get_default v d = (case v of None \<Rightarrow> d | Some x \<Rightarrow> x)"

text \<open>
  First pass (lines 198-222), with the loop variables \<open>max_sample_rate\<close>, \<open>max_length\<close>
  and \<open>track_audio_data\<close> as accumulators. A muted track and a track whose file is absent
  are skipped; an exception of the decoder is not caught per track and ends the call.
\<close>

fun first_pass ::
  "filesystem \<Rightarrow> track list \<Rightarrow> int \<Rightarrow> real \<Rightarrow> track_data list
    \<Rightarrow> error + (int \<times> real \<times> track_data list)" where
  "first_pass fs [] max_sample_rate max_length track_audio_data =
     Inr (max_sample_rate, max_length, track_audio_data)"
| "first_pass fs (t # ts) max_sample_rate max_length track_audio_data =
     (if get_default (muted t) False
      then first_pass fs ts max_sample_rate max_length track_audio_data
      else
        (case file_path t of
           None \<Rightarrow> first_pass fs ts max_sample_rate max_length track_audio_data
         | Some p \<Rightarrow>
             if p = [] then first_pass fs ts max_sample_rate max_length track_audio_data
             else
               (case fs p of
                  Missing \<Rightarrow> first_pass fs ts max_sample_rate max_length track_audio_data
                | Corrupt \<Rightarrow> Inl ReadError
                | Audio audio sample_rate \<Rightarrow>
                    (case py_truediv (int (len audio)) sample_rate of
                       Inl e \<Rightarrow> Inl e
                     | Inr duration \<Rightarrow>
                         first_pass fs ts (max max_sample_rate sample_rate)
                           (max max_length duration)
                           (track_audio_data @
                             [\<lparr>td_audio = audio, td_sample_rate = sample_rate,
                               td_volume = get_default (volume t) 100 / 100,
                               td_pan = get_default (pan t) 0,
                               td_solo = get_default (solo t) False\<rparr>])))))"

text \<open>\<^verbatim>\<open>np.column_stack((audio, audio))\<close> for a one-dimensional buffer (lines 254-255).\<close>

fun to_stereo :: "ndarray \<Rightarrow> ndarray" where
  "to_stereo (Arr1 xs) = Arr2 (length xs) [xs, xs]"
| "to_stereo (Arr2 n cols) = Arr2 n cols"

text \<open>
  Equal-power panning (lines 260-265): column 0 and column 1 are scaled in place; an array
  without these columns raises on the index.
\<close>

definition pan_left :: "real \<Rightarrow> real" where
  "pan_left p = cos ((p + 1) * pi / 4)"

definition pan_right :: "real \<Rightarrow> real" where
  "pan_right p = sin ((p + 1) * pi / 4)"

fun apply_pan :: "real \<Rightarrow> ndarray \<Rightarrow> error + ndarray" where
  "apply_pan p (Arr2 n (c0 # c1 # rest)) =
     Inr (Arr2 n (map (\<lambda>x. x * pan_left p) c0 # map (\<lambda>x. x * pan_right p) c1 # rest))"
| "apply_pan p a = Inl IndexError"

text \<open>
  Padding with \<^verbatim>\<open>np.vstack((audio, np.zeros((k, 2))))\<close> needs two columns in \<open>audio\<close>;
  trimming is the slice \<^verbatim>\<open>audio[:output_length, :]\<close> (lines 271-278). The array is
  two-dimensional here, after the stereo step; the equation for a one-dimensional array is
  never reached from \<^verbatim>\<open>mix_tracks\<close>.
\<close>

fun fit_length :: "nat \<Rightarrow> ndarray \<Rightarrow> error + ndarray" where
  "fit_length output_length (Arr2 track_length cols) =
     (if track_length < output_length then
        (if length cols = 2
         then Inr (Arr2 output_length
                (map (\<lambda>c. c @ replicate (output_length - track_length) 0) cols))
         else Inl (ValueError ''all the input array dimensions except for the concatenation axis must match exactly''))
      else if track_length > output_length then
        Inr (Arr2 output_length (map (take output_length) cols))
      else Inr (Arr2 track_length cols))"
| "fit_length output_length (Arr1 xs) = Inl IndexError"

text \<open>
  \<^verbatim>\<open>mixed_audio += audio\<close> on two-dimensional arrays (line 281): the right operand is
  broadcast to the shape of the left one, an axis of length 1 being repeated. Both
  operands are two-dimensional in \<^verbatim>\<open>mix_tracks\<close>; the last equation is never reached.
\<close>

definition broadcast_to :: "nat \<Rightarrow> 'a list \<Rightarrow> 'a list" where
  "broadcast_to n xs = (if length xs = n then xs else replicate n (hd xs))"

fun np_iadd :: "ndarray \<Rightarrow> ndarray \<Rightarrow> error + ndarray" where
  "np_iadd (Arr2 n cols) (Arr2 m acols) =
     (if (m = n \<or> m = 1) \<and> (length acols = length cols \<or> length acols = 1)
      then Inr (Arr2 n (map2 (map2 (+)) cols
                  (broadcast_to (length cols) (map (broadcast_to n) acols))))
      else Inl (ValueError ''operands could not be broadcast together''))"
| "np_iadd a b = Inl (ValueError ''operands could not be broadcast together'')"

text \<open>The pan stage as the loop has it (line 258): skipped when the pan is zero.\<close>

definition pan_stage :: "real \<Rightarrow> ndarray \<Rightarrow> error + ndarray" where
  "pan_stage p audio = (if p \<noteq> 0 then apply_pan p audio else Inr audio)"

text \<open>
  What one track adds to the mix (lines 242-278): resampled to the output rate when its
  own rate differs, made stereo, panned, scaled by its volume, padded or trimmed.
\<close>

definition track_contribution :: "int \<Rightarrow> nat \<Rightarrow> track_data \<Rightarrow> error + ndarray" where
  "track_contribution max_sample_rate output_length track_data =
     (case (if td_sample_rate track_data \<noteq> max_sample_rate
            then resample_audio (td_audio track_data) (td_sample_rate track_data) max_sample_rate
            else Inr (td_audio track_data)) of
        Inl e \<Rightarrow> Inl e
      | Inr audio \<Rightarrow>
          (case pan_stage (td_pan track_data / 100) (to_stereo audio) of
             Inl e \<Rightarrow> Inl e
           | Inr panned \<Rightarrow> fit_length output_length (np_scale panned (td_volume track_data))))"

text \<open>Second pass (lines 237-281) with \<open>mixed_audio\<close> as the accumulator.\<close>

fun second_pass ::
  "bool \<Rightarrow> int \<Rightarrow> nat \<Rightarrow> track_data list \<Rightarrow> ndarray \<Rightarrow> error + ndarray" where
  "second_pass solo_active max_sample_rate output_length [] mixed_audio = Inr mixed_audio"
| "second_pass solo_active max_sample_rate output_length (track_data # rest) mixed_audio =
     (if solo_active \<and> \<not> td_solo track_data
      then second_pass solo_active max_sample_rate output_length rest mixed_audio
      else
        (case track_contribution max_sample_rate output_length track_data of
           Inl e \<Rightarrow> Inl e
         | Inr audio \<Rightarrow>
             (case np_iadd mixed_audio audio of
                Inl e \<Rightarrow> Inl e
              | Inr mixed \<Rightarrow> second_pass solo_active max_sample_rate output_length rest mixed)))"

text \<open>
  \<^verbatim>\<open>mix_tracks\<close> (lines 172-294) without an output path: the optional write of the result
  is a side effect after the mix is computed. The accumulator starts at zero rate and zero
  length, so \<open>output_length\<close> is never negative.
\<close>

definition mix_tracks :: "filesystem \<Rightarrow> track list \<Rightarrow> error + (ndarray \<times> int)" where
  "mix_tracks fs tracks =
     (if tracks = [] then Inl (ValueError ''No tracks provided for mixing'')
      else
        (case first_pass fs tracks 0 0 [] of
           Inl e \<Rightarrow> Inl e
         | Inr (max_sample_rate, max_length, track_audio_data) \<Rightarrow>
             if track_audio_data = [] then Inl (ValueError ''No valid tracks to mix'')
             else
               (let solo_active = list_ex td_solo track_audio_data;
                    output_length = py_int (max_length * real_of_int max_sample_rate)
                in
                  (case np_zeros2 output_length 2 of
                     Inl e \<Rightarrow> Inl e
                   | Inr zeros \<Rightarrow>
                       (case second_pass solo_active max_sample_rate (nat output_length)
                               track_audio_data zeros of
                          Inl e \<Rightarrow> Inl e
                        | Inr mixed_audio \<Rightarrow>
                            (case normalize_audio mixed_audio (-3) of
                               Inl e \<Rightarrow> Inl e
                             | Inr normalized \<Rightarrow> Inr (normalized, max_sample_rate)))))))"

section \<open>Fades\<close>

text \<open>
  An in-place \<^verbatim>\<open>target *= operand\<close> on one-dimensional arrays: the operand must have the
  target's length or length 1, otherwise numpy raises on the shapes.
\<close>

definition np_imul :: "real list \<Rightarrow> real list \<Rightarrow> error + real list" where
  "np_imul target operand =
     (if length operand = length target then Inr (map2 (*) target operand)
      else if length operand = 1 then Inr (map (\<lambda>x. x * hd operand) target)
      else Inl (ValueError ''operands could not be broadcast together''))"

text \<open>
  \<^verbatim>\<open>result[:k] *= curve\<close> and \<^verbatim>\<open>result[-k:] *= curve\<close> on one channel, for \<open>k > 0\<close>:
  the slice holds at most \<open>k\<close> samples, fewer when the channel is shorter.
\<close>

definition fade_in_channel :: "nat \<Rightarrow> real list \<Rightarrow> real list \<Rightarrow> error + real list" where
  "fade_in_channel k curve c =
     (case np_imul (take k c) curve of Inl e \<Rightarrow> Inl e | Inr s \<Rightarrow> Inr (s @ drop k c))"

definition fade_out_channel :: "nat \<Rightarrow> real list \<Rightarrow> real list \<Rightarrow> error + real list" where
  "fade_out_channel k curve c =
     (case np_imul (drop (length c - k) c) curve of
        Inl e \<Rightarrow> Inl e
      | Inr s \<Rightarrow> Inr (take (length c - k) c @ s))"

text \<open>A per-channel operation on a mono buffer or, channel after channel, on a 2-D one.\<close>

fun each_channel :: "(real list \<Rightarrow> error + real list) \<Rightarrow> ndarray \<Rightarrow> error + ndarray" where
  "each_channel f (Arr1 xs) = (case f xs of Inl e \<Rightarrow> Inl e | Inr ys \<Rightarrow> Inr (Arr1 ys))"
| "each_channel f (Arr2 n cols) =
     (case traverse f cols of Inl e \<Rightarrow> Inl e | Inr cols' \<Rightarrow> Inr (Arr2 n cols'))"

text \<open>\<^verbatim>\<open>apply_fade\<close> (lines 352-407).\<close>

definition apply_fade :: "ndarray \<Rightarrow> real \<Rightarrow> real \<Rightarrow> int \<Rightarrow> error + ndarray" where
  "apply_fade audio_data fade_in_duration fade_out_duration sample_rate =
     (let fade_in_samples = py_int (fade_in_duration * real_of_int sample_rate);
          fade_out_samples = py_int (fade_out_duration * real_of_int sample_rate)
      in
        (case (if fade_in_samples > 0 then
                 (case np_linspace 0 1 fade_in_samples of
                    Inl e \<Rightarrow> Inl e
                  | Inr fade_in_curve \<Rightarrow>
                      each_channel (fade_in_channel (nat fade_in_samples) fade_in_curve) audio_data)
               else Inr audio_data) of
           Inl e \<Rightarrow> Inl e
         | Inr result \<Rightarrow>
             if fade_out_samples > 0 then
               (case np_linspace 1 0 fade_out_samples of
                  Inl e \<Rightarrow> Inl e
                | Inr fade_out_curve \<Rightarrow>
                    each_channel (fade_out_channel (nat fade_out_samples) fade_out_curve) result)
             else Inr result))"


section \<open>Effects\<close>

subsection \<open>Convolution and broadcasting on one-dimensional arrays\<close>






subsection \<open>Three-band equalizer\<close>









subsection \<open>Reverb\<close>

text \<open>
  \<^verbatim>\<open>np.random.random(n)\<close> reads the process-wide generator of numpy, which the service
  never seeds. The generator is modelled as the sequence of numbers in \<open>[0, 1)\<close> it is going
  to produce; drawing \<open>n\<close> numbers returns the first \<open>n\<close> and leaves the rest.
\<close>

type_synonym rng = "nat \<Rightarrow> real"

definition np_random_random :: "rng \<Rightarrow> int \<Rightarrow> (error + real list) \<times> rng" where
  "np_random_random g n =
     (if n < 0 then (Inl (ValueError ''negative dimensions are not allowed''), g)
      else (Inr (map g [0..<nat n]), (\<lambda>i. g (i + nat n))))"





subsection \<open>Delay\<close>





subsection \<open>The effects chain\<close>








section \<open>Notions of the specification\<close>

text \<open>
  The definitions of this section are not translations of functions of the code. They
  follow the words of the specification, as what the code is compared with, or name a
  quantity that the statements below need.
\<close>



text \<open>
  A surviving track: not muted, with a file that is present and decodes. Its record holds
  what the first pass stores for it.
\<close>

definition load_track :: "filesystem \<Rightarrow> track \<Rightarrow> track_data option" where
  "load_track fs t =
     (if get_default (muted t) False then None
      else
        (case file_path t of
           None \<Rightarrow> None
         | Some p \<Rightarrow>
             if p = [] then None
             else
               (case fs p of
                  Audio audio sample_rate \<Rightarrow>
                    Some \<lparr>td_audio = audio, td_sample_rate = sample_rate,
                          td_volume = get_default (volume t) 100 / 100,
                          td_pan = get_default (pan t) 0,
                          td_solo = get_default (solo t) False\<rparr>
                | _ \<Rightarrow> None)))"

definition surviving :: "filesystem \<Rightarrow> track list \<Rightarrow> track_data list" where
  "surviving fs tracks = List.map_filter (load_track fs) tracks"


definition duration :: "track_data \<Rightarrow> real" where
  "duration d = real (len (td_audio d)) / real_of_int (td_sample_rate d)"





text \<open>Frame count, channel count and sample rate of a mix, or its error.\<close>

definition result_shape :: "error + (ndarray \<times> int) \<Rightarrow> error + (nat \<times> nat \<times> int)" where
  "result_shape r =
     (case r of Inl e \<Rightarrow> Inl e | Inr (b, sr) \<Rightarrow> Inr (len b, length (columns b), sr))"


text \<open>
  The contribution of a track if the pan stage were not skipped: the pan law applied
  whatever the pan is. This is the alternative that C4 compares the code with.
\<close>

definition track_contribution_panned :: "int \<Rightarrow> nat \<Rightarrow> track_data \<Rightarrow> error + ndarray" where
  "track_contribution_panned max_sample_rate output_length track_data =
     (case (if td_sample_rate track_data \<noteq> max_sample_rate
            then resample_audio (td_audio track_data) (td_sample_rate track_data) max_sample_rate
            else Inr (td_audio track_data)) of
        Inl e \<Rightarrow> Inl e
      | Inr audio \<Rightarrow>
          (case apply_pan (td_pan track_data / 100) (to_stereo audio) of
             Inl e \<Rightarrow> Inl e
           | Inr panned \<Rightarrow> fit_length output_length (np_scale panned (td_volume track_data))))"

text \<open>A buffer as the specification's data model has it: one channel, or two.\<close>

fun mono_or_stereo :: "ndarray \<Rightarrow> bool" where
  "mono_or_stereo (Arr1 xs) = True"
| "mono_or_stereo (Arr2 n cols) = (length cols = 2)"




section \<open>Example inputs\<close>

text \<open>
  Three small files: one mono frame at 1 Hz, two mono frames at 2 Hz, two stereo frames
  at 2 Hz; each lasts one second. Every other path names no file.
\<close>

definition ex_fs :: filesystem where
  "ex_fs p = (if p = ''a.wav'' then Audio (Arr1 [1]) 1
              else if p = ''b.wav'' then Audio (Arr1 [1, 1]) 2
              else if p = ''c.wav'' then Audio (Arr2 2 [[1, 0], [0, 1]]) 2
              else Missing)"

text \<open>A track of full volume and centre pan, not muted, soloed or not.\<close>

definition ex_track :: "string \<Rightarrow> bool \<Rightarrow> track" where
  "ex_track p s = \<lparr>file_path = Some p, volume = None, pan = None, muted = None, solo = Some s\<rparr>"

text \<open>One frame of amplitude 1 at 1 Hz, full volume, centre pan.\<close>

definition ex_centre :: track_data where
  "ex_centre = \<lparr>td_audio = Arr1 [1], td_sample_rate = 1, td_volume = 1, td_pan = 0,
                 td_solo = False\<rparr>"




section \<open>Auxiliary facts\<close>

lemma traverse_Inr:
  assumes "\<And>x. x \<in> set xs \<Longrightarrow> \<exists>y. f x = Inr y \<and> P y"
  shows "\<exists>ys. traverse f xs = Inr ys \<and> length ys = length xs \<and> list_all P ys"
  using assms
proof (induction xs)
  case Nil
  then show ?case by simp
next
  case (Cons x xs)
  from Cons.prems obtain y where y: "f x = Inr y" "P y" by auto
  from Cons obtain ys where ys: "traverse f xs = Inr ys" "length ys = length xs" "list_all P ys"
    by auto
  show ?case using y ys by simp
qed

lemma np_linspace_length:
  "0 \<le> num \<Longrightarrow> \<exists>g. np_linspace a b num = Inr g \<and> length g = nat num"
  by (simp add: np_linspace_def)


lemma resample_channel_zero:
  "channel_data \<noteq> [] \<Longrightarrow> resample_channel 0 channel_data = Inr []"
  by (simp add: resample_channel_def np_linspace_def np_interp_def np_arange_def)







section \<open>Resampling: length of the result (C5)\<close>





section \<open>Resampling: rates that are not positive (C6)\<close>

text \<open>
  C6, as the specification states it, fails: the code does not look at the sign of the
  rates. Two equal rates, here both zero, return the input.
\<close>

theorem resample_audio_zero_rates_counterexample:
  "resample_audio (Arr1 [1]) 0 0 = Inr (Arr1 [1])"
  by (simp add: resample_audio_def)

text \<open>
  C6 (amended): \<^verbatim>\<open>resample_audio\<close> does not validate its rates. When a rate is zero or
  negative: two equal rates return the input unchanged; a zero \<open>from_rate\<close> with another
  \<open>to_rate\<close> fails with the division error of Python; a zero \<open>to_rate\<close> with another
  \<open>from_rate\<close> returns, for a buffer that has frames, a buffer of no frames with the same
  channels.
\<close>

theorem resample_audio_unvalidated_rates:
  assumes "r_from \<le> 0 \<or> r_to \<le> 0"
  shows "(r_from = r_to \<longrightarrow> resample_audio audio r_from r_to = Inr audio)
       \<and> (r_from = 0 \<and> r_to \<noteq> 0 \<longrightarrow> resample_audio audio r_from r_to = Inl ZeroDivisionError)
       \<and> (r_to = 0 \<and> r_from \<noteq> 0 \<and> wf_array audio \<and> 0 < len audio \<longrightarrow>
            (\<exists>out. resample_audio audio r_from r_to = Inr out \<and> len out = 0
                \<and> length (columns out) = length (columns audio)))"
proof (intro conjI impI)
  assume "r_from = r_to"
  then show "resample_audio audio r_from r_to = Inr audio"
    by (simp add: resample_audio_def)
next
  assume "r_from = 0 \<and> r_to \<noteq> 0"
  then show "resample_audio audio r_from r_to = Inl ZeroDivisionError"
    by (simp add: resample_audio_def py_truediv_def)
next
  assume a: "r_to = 0 \<and> r_from \<noteq> 0 \<and> wf_array audio \<and> 0 < len audio"
  show "\<exists>out. resample_audio audio r_from r_to = Inr out \<and> len out = 0
                \<and> length (columns out) = length (columns audio)"
  proof (cases audio)
    case (Arr1 xs)
    then have "xs \<noteq> []" using a by auto
    then show ?thesis using a Arr1
      by (simp add: resample_audio_def py_truediv_def py_int_def resample_channel_zero)
  next
    case (Arr2 n cols)
    have "\<And>c. c \<in> set cols \<Longrightarrow> \<exists>y. resample_channel 0 c = Inr y \<and> y = []"
      using a Arr2 by (auto simp: list_all_iff resample_channel_zero)
    then obtain chans where "traverse (resample_channel 0) cols = Inr chans"
      "length chans = length cols"
      using traverse_Inr [of cols "resample_channel 0" "\<lambda>y. y = []"] by blast
    then show ?thesis using a Arr2
      by (simp add: resample_audio_def py_truediv_def py_int_def np_zeros2_def)
  qed
qed

text \<open>C6 (amended) at the rate pairs \<open>(-1, -1)\<close>, \<open>(0, 44100)\<close> and \<open>(44100, 0)\<close>.\<close>

theorem resample_audio_unvalidated_rates_witness:
  "resample_audio (Arr1 [1, 2]) (-1) (-1) = Inr (Arr1 [1, 2])
   \<and> resample_audio (Arr1 [1, 2]) 0 44100 = Inl ZeroDivisionError
   \<and> (\<exists>out. resample_audio (Arr1 [1, 2]) 44100 0 = Inr out \<and> len out = 0
         \<and> length (columns out) = length (columns (Arr1 [1, 2])))"
  using resample_audio_unvalidated_rates [of "-1" "-1" "Arr1 [1, 2]"]
        resample_audio_unvalidated_rates [of 0 44100 "Arr1 [1, 2]"]
        resample_audio_unvalidated_rates [of 44100 0 "Arr1 [1, 2]"]
  by simp


section \<open>Normalization (C8)\<close>



lemma surviving_Nil [simp]: "surviving fs [] = []"
  by (simp add: surviving_def map_filter_simps)

lemma surviving_Cons:
  "surviving fs (t # ts) =
     (case load_track fs t of None \<Rightarrow> surviving fs ts | Some d \<Rightarrow> d # surviving fs ts)"
  by (cases "load_track fs t") (simp_all add: surviving_def map_filter_simps)


lemma fold_max_Max:
  fixes xs :: "'a::linorder list"
  shows "fold max xs a = Max (insert a (set xs))"
  using Max.set_eq_fold [of a xs] by simp




lemma np_scale_len [simp]: "len (np_scale a g) = len a"
  by (cases a) simp_all



section \<open>Mixing: rate and length of the output (C1)\<close>





section \<open>Mixing: every track muted (C7)\<close>

lemma first_pass_all_muted:
  "\<forall>t \<in> set ts. muted t = Some True \<Longrightarrow> first_pass fs ts msr ml tad = Inr (msr, ml, tad)"
  by (induction ts) (simp_all add: get_default_def)

text \<open>
  C7: on a non-empty list of tracks that are all muted, \<^verbatim>\<open>mix_tracks\<close> raises and returns
  no buffer. The exception is the \<^verbatim>\<open>ValueError("No valid tracks to mix")\<close> of line 225,
  which the specification calls \<open>NoValidTracksError\<close>; it differs from the error for an
  empty list.
\<close>

theorem mix_tracks_all_muted:
  assumes "tracks \<noteq> []" "\<forall>t \<in> set tracks. muted t = Some True"
  shows "mix_tracks fs tracks = Inl (ValueError ''No valid tracks to mix'')"
  using assms by (simp add: mix_tracks_def first_pass_all_muted)

text \<open>C7 on two muted tracks, one of them soloed.\<close>

theorem mix_tracks_all_muted_witness:
  "mix_tracks ex_fs [(ex_track ''a.wav'' False)\<lparr>muted := Some True\<rparr>,
                     (ex_track ''b.wav'' True)\<lparr>muted := Some True\<rparr>]
     = Inl (ValueError ''No valid tracks to mix'')"
  using mix_tracks_all_muted [of "[(ex_track ''a.wav'' False)\<lparr>muted := Some True\<rparr>,
                     (ex_track ''b.wav'' True)\<lparr>muted := Some True\<rparr>]" ex_fs]
  by simp


section \<open>Mixing: one soloed track (C3)\<close>

lemma first_pass_loaded:
  assumes "\<forall>t \<in> set ts. \<exists>d. load_track fs t = Some d \<and> td_sample_rate d \<noteq> 0"
  shows "first_pass fs ts msr ml tad =
           Inr (fold max (map td_sample_rate (surviving fs ts)) msr,
                fold max (map duration (surviving fs ts)) ml,
                tad @ surviving fs ts)"
  using assms
proof (induction ts arbitrary: msr ml tad)
  case Nil
  then show ?case by simp
next
  case (Cons t ts)
  then obtain d where d: "load_track fs t = Some d" "td_sample_rate d \<noteq> 0" by auto
  then obtain p where p: "\<not> get_default (muted t) False" "file_path t = Some p" "p \<noteq> []"
      "fs p = Audio (td_audio d) (td_sample_rate d)"
      "td_volume d = get_default (volume t) 100 / 100" "td_pan d = get_default (pan t) 0"
      "td_solo d = get_default (solo t) False"
      by (auto simp: load_track_def split: if_splits option.splits file_state.splits)
  have dd: "d = \<lparr>td_audio = td_audio d, td_sample_rate = td_sample_rate d,
                  td_volume = get_default (volume t) 100 / 100,
                  td_pan = get_default (pan t) 0,
                  td_solo = get_default (solo t) False\<rparr>"
    using p by simp
  have "first_pass fs (t # ts) msr ml tad =
          first_pass fs ts (max msr (td_sample_rate d)) (max ml (duration d)) (tad @ [d])"
    using p d(2) by (subst (3) dd) (simp add: py_truediv_def duration_def)
  then show ?case using Cons d by (simp add: surviving_Cons max.commute)
qed

lemma second_pass_solo_filter:
  "second_pass True msr L tad mixed = second_pass True msr L (filter td_solo tad) mixed"
  by (induction tad arbitrary: mixed) (auto split: sum.splits)

lemma surviving_loaded:
  assumes "\<forall>t \<in> set ts. \<exists>d. load_track fs t = Some d \<and> P d"
  shows "surviving fs ts = map (\<lambda>t. the (load_track fs t)) ts"
  using assms by (induction ts) (auto simp: surviving_Cons)

lemma load_track_solo:
  "load_track fs t = Some d \<Longrightarrow> td_solo d = get_default (solo t) False"
  by (auto simp: load_track_def split: if_splits option.splits file_state.splits)

lemma Max_top:
  fixes f :: "'a \<Rightarrow> 'b::linorder"
  assumes "x \<in> set xs" "\<forall>y \<in> set xs. f y \<le> f x"
  shows "Max (f ` set xs) = f x"
  using assms by (intro Max_eqI) auto

text \<open>
  C3, as the specification states it, fails: rate and length of the output are fixed
  before the solo filter. Three unmuted readable tracks, the soloed one at 1 Hz and the
  others at 2 Hz, mix to two frames at rate 2; the soloed track alone mixes to one frame
  at rate 1.
\<close>

theorem mix_tracks_three_solo_counterexample:
  "result_shape (mix_tracks ex_fs
      [ex_track ''a.wav'' True, ex_track ''b.wav'' False, ex_track ''c.wav'' False])
     = Inr (2, 2, 2)
   \<and> result_shape (mix_tracks ex_fs [ex_track ''a.wav'' True]) = Inr (1, 2, 1)"
  by (simp add: result_shape_def mix_tracks_def ex_track_def ex_fs_def get_default_def
      py_truediv_def py_int_def np_zeros2_def track_contribution_def resample_audio_def
      resample_channel_def np_linspace_def np_interp_def np_arange_def pan_stage_def
      normalize_audio_def numeral_2_eq_2 broadcast_to_def Let_def)

text \<open>
  C3 (amended): for every list of unmuted, readable tracks with positive sample rates, of
  three tracks or of any other length, in which exactly one track is soloed and the
  soloed track has the highest sample rate and the longest duration of the list,
  \<^verbatim>\<open>mix_tracks\<close> on the list returns exactly what it returns on the soloed track alone:
  the same buffer, normalization included, and the same rate.
\<close>

theorem mix_tracks_single_solo:
  assumes loaded: "\<forall>t \<in> set tracks. \<exists>d. load_track fs t = Some d \<and> 0 < td_sample_rate d"
      and one_solo: "filter (\<lambda>t. get_default (solo t) False) tracks = [s]"
      and top: "load_track fs s = Some ds"
               "\<forall>d \<in> set (surviving fs tracks).
                   td_sample_rate d \<le> td_sample_rate ds \<and> duration d \<le> duration ds"
  shows "mix_tracks fs tracks = mix_tracks fs [s]"
proof -
  have s_in: "s \<in> set tracks" "get_default (solo s) False"
    using one_solo filter_eq_ConsD [of "\<lambda>t. get_default (solo t) False" tracks s "[]"] by auto
  then have ne: "tracks \<noteq> []" by auto
  have loaded': "\<forall>t \<in> set tracks. \<exists>d. load_track fs t = Some d \<and> td_sample_rate d \<noteq> 0"
    using loaded by fastforce
  have pos: "0 < td_sample_rate ds" using loaded s_in top(1) by fastforce
  have sv: "surviving fs tracks = map (\<lambda>t. the (load_track fs t)) tracks"
    using surviving_loaded [OF loaded'] .
  have ds_in: "ds \<in> set (surviving fs tracks)"
    using s_in top(1) by (force simp: sv)
  have "filter td_solo (surviving fs tracks)
          = map (\<lambda>t. the (load_track fs t)) (filter (\<lambda>t. get_default (solo t) False) tracks)"
    unfolding sv filter_map
    by (rule arg_cong [where f = "map _"], rule filter_cong) (use loaded load_track_solo in force)+
  then have flt: "filter td_solo (surviving fs tracks) = [ds]"
    using one_solo top(1) by simp
  have solo_ds: "td_solo ds" using load_track_solo [OF top(1)] s_in by simp
  have ex: "list_ex td_solo (surviving fs tracks)"
    using ds_in solo_ds by (auto simp: list_ex_iff)
  have sv1: "surviving fs [s] = [ds]" using top(1) by (simp add: surviving_Cons)
  have msr: "fold max (map td_sample_rate (surviving fs tracks)) 0 = td_sample_rate ds"
  proof -
    have "Max (td_sample_rate ` set (surviving fs tracks)) = td_sample_rate ds"
      using Max_top [OF ds_in, of td_sample_rate] top(2) by simp
    moreover have "Max (insert 0 (td_sample_rate ` set (surviving fs tracks)))
                     = max 0 (Max (td_sample_rate ` set (surviving fs tracks)))"
      using ds_in by (intro Max_insert) auto
    ultimately show ?thesis
      using pos by (simp add: fold_max_Max)
  qed
  have dpos: "0 \<le> duration ds" using pos by (simp add: duration_def)
  have ml: "fold max (map duration (surviving fs tracks)) 0 = duration ds"
  proof -
    have "Max (duration ` set (surviving fs tracks)) = duration ds"
      using Max_top [OF ds_in, of duration] top(2) by simp
    moreover have "Max (insert 0 (duration ` set (surviving fs tracks)))
                     = max 0 (Max (duration ` set (surviving fs tracks)))"
      using ds_in by (intro Max_insert) auto
    ultimately show ?thesis
      using dpos by (simp add: fold_max_Max)
  qed
  have fp: "first_pass fs tracks 0 0 [] = Inr (td_sample_rate ds, duration ds, surviving fs tracks)"
    using first_pass_loaded [OF loaded', of 0 0 "[]"] msr ml by simp
  have "\<forall>t \<in> set [s]. \<exists>d. load_track fs t = Some d \<and> td_sample_rate d \<noteq> 0"
    using top(1) pos by simp
  from first_pass_loaded [OF this, of 0 0 "[]"]
  have fp1: "first_pass fs [s] 0 0 [] = Inr (td_sample_rate ds, duration ds, [ds])"
    using pos dpos by (simp add: sv1)
  have sp: "second_pass True (td_sample_rate ds) L (surviving fs tracks) z
              = second_pass True (td_sample_rate ds) L [ds] z" for L z
    using second_pass_solo_filter [of "td_sample_rate ds" L "surviving fs tracks" z] flt by simp
  have ne2: "surviving fs tracks \<noteq> []" using ds_in by auto
  have "mix_tracks fs tracks =
          (case np_zeros2 (py_int (duration ds * real_of_int (td_sample_rate ds))) 2 of
             Inl e \<Rightarrow> Inl e
           | Inr zeros \<Rightarrow>
               (case second_pass True (td_sample_rate ds)
                       (nat (py_int (duration ds * real_of_int (td_sample_rate ds))))
                       (surviving fs tracks) zeros of
                  Inl e \<Rightarrow> Inl e
                | Inr mixed_audio \<Rightarrow>
                    (case normalize_audio mixed_audio (-3) of
                       Inl e \<Rightarrow> Inl e
                     | Inr normalized \<Rightarrow> Inr (normalized, td_sample_rate ds))))"
    using ne ne2 ex by (simp add: mix_tracks_def fp Let_def)
  also have "\<dots> =
          (case np_zeros2 (py_int (duration ds * real_of_int (td_sample_rate ds))) 2 of
             Inl e \<Rightarrow> Inl e
           | Inr zeros \<Rightarrow>
               (case second_pass True (td_sample_rate ds)
                       (nat (py_int (duration ds * real_of_int (td_sample_rate ds))))
                       [ds] zeros of
                  Inl e \<Rightarrow> Inl e
                | Inr mixed_audio \<Rightarrow>
                    (case normalize_audio mixed_audio (-3) of
                       Inl e \<Rightarrow> Inl e
                     | Inr normalized \<Rightarrow> Inr (normalized, td_sample_rate ds))))"
    by (simp only: sp)
  also have "\<dots> = mix_tracks fs [s]"
    using solo_ds
    by (simp only: mix_tracks_def fp1) (simp add: Let_def del: second_pass.simps first_pass.simps)
  finally show ?thesis .
qed

text \<open>C3 (amended) on three tracks of one second, the third one soloed, at 1, 2 and 2 Hz.\<close>

theorem mix_tracks_single_solo_witness:
  "mix_tracks ex_fs [ex_track ''a.wav'' False, ex_track ''b.wav'' False, ex_track ''c.wav'' True]
     = mix_tracks ex_fs [ex_track ''c.wav'' True]
   \<and> mix_tracks ex_fs [ex_track ''c.wav'' True]
     = Inr (Arr2 2 [[10 powr (- (3 / 20)), 0], [0, 10 powr (- (3 / 20))]], 2)"
proof -
  let ?T = "[ex_track ''a.wav'' False, ex_track ''b.wav'' False, ex_track ''c.wav'' True]"
  let ?dc = "\<lparr>td_audio = Arr2 2 [[1, 0], [0, 1]], td_sample_rate = 2, td_volume = 1,
              td_pan = 0, td_solo = True\<rparr>"
  have l: "\<forall>t \<in> set ?T. \<exists>d. load_track ex_fs t = Some d \<and> 0 < td_sample_rate d"
    by (simp add: load_track_def ex_track_def ex_fs_def get_default_def)
  have f: "filter (\<lambda>t. get_default (solo t) False) ?T = [ex_track ''c.wav'' True]"
    by (simp add: ex_track_def get_default_def)
  have s: "load_track ex_fs (ex_track ''c.wav'' True) = Some ?dc"
    by (simp add: load_track_def ex_track_def ex_fs_def get_default_def)
  have t: "\<forall>d \<in> set (surviving ex_fs ?T).
             td_sample_rate d \<le> td_sample_rate ?dc \<and> duration d \<le> duration ?dc"
    by (simp add: surviving_Cons load_track_def ex_track_def ex_fs_def get_default_def
        duration_def)
  have v: "mix_tracks ex_fs [ex_track ''c.wav'' True]
     = Inr (Arr2 2 [[10 powr (- (3 / 20)), 0], [0, 10 powr (- (3 / 20))]], 2)"
    by (simp add: mix_tracks_def ex_track_def ex_fs_def get_default_def
        py_truediv_def py_int_def np_zeros2_def track_contribution_def pan_stage_def
        normalize_audio_def numeral_2_eq_2 broadcast_to_def Let_def)
  show ?thesis
    using mix_tracks_single_solo [OF l f s t] v by simp
qed


section \<open>Mixing: the pan stage at centre pan (C4)\<close>

lemma pan_gains_centre: "pan_left 0 = sqrt 2 / 2" "pan_right 0 = sqrt 2 / 2"
  by (simp_all add: pan_left_def pan_right_def cos_45 sin_45)

lemma sqrt2_neq_2: "sqrt 2 \<noteq> (2::real)"
proof
  assume "sqrt 2 = (2::real)"
  then have "(sqrt 2)\<^sup>2 = (2::real)\<^sup>2" by simp
  then show False by simp
qed

text \<open>
  C4, as the specification states it, fails: skipping the pan stage leaves both channels at
  gain 1, and the gains of the pan law at pan 0 are not 1. A mono frame of amplitude 1
  contributes 1 on both channels; with the pan law applied it would contribute
  \<open>sqrt 2 / 2\<close>.
\<close>

theorem pan_skip_counterexample:
  "track_contribution 1 1 ex_centre = Inr (Arr2 1 [[1], [1]])
   \<and> track_contribution_panned 1 1 ex_centre = Inr (Arr2 1 [[sqrt 2 / 2], [sqrt 2 / 2]])
   \<and> track_contribution 1 1 ex_centre \<noteq> track_contribution_panned 1 1 ex_centre"
  by (simp add: track_contribution_def track_contribution_panned_def ex_centre_def
      pan_stage_def pan_gains_centre sqrt2_neq_2 numeral_2_eq_2)
lemma traverse_length: "traverse f xs = Inr ys \<Longrightarrow> length ys = length xs"
  by (induction xs arbitrary: ys) (auto split: sum.splits)

lemma resample_audio_mono_or_stereo:
  assumes "resample_audio a r r' = Inr b" "mono_or_stereo a"
  shows "mono_or_stereo b"
proof (cases a)
  case (Arr1 xs)
  then show ?thesis using assms(1)
    by (auto simp: resample_audio_def Let_def split: if_splits sum.splits)
next
  case (Arr2 n cols)
  then show ?thesis using assms
    by (auto simp: resample_audio_def Let_def dest: traverse_length split: if_splits sum.splits)
qed

lemma apply_pan_centre:
  assumes "mono_or_stereo a"
  shows "apply_pan 0 (to_stereo a) = Inr (np_scale (to_stereo a) (sqrt 2 / 2))"
proof (cases a)
  case (Arr1 xs)
  then show ?thesis by (simp add: pan_gains_centre)
next
  case (Arr2 n cols)
  then obtain c0 c1 where "cols = [c0, c1]"
    using assms by (cases cols; cases "tl cols") auto
  then show ?thesis using Arr2 by (simp add: pan_gains_centre)
qed

lemma np_scale_commute: "np_scale (np_scale a g) v = np_scale (np_scale a v) g"
  by (cases a) (simp_all add: mult.assoc mult.commute [of g v])

lemma fit_length_scale:
  "fit_length L (np_scale a g) =
     (case fit_length L a of Inl e \<Rightarrow> Inl e | Inr b \<Rightarrow> Inr (np_scale b g))"
  by (cases a) (simp_all add: take_map)

text \<open>
  C4 (amended): at pan 0 the pan law gives both channels the gain
  \<open>cos(pi/4) = sin(pi/4) = sqrt 2 / 2\<close>; the code skips the stage, and for a mono or
  stereo track with pan 0 the contribution with these gains applied would be
  \<open>sqrt 2 / 2\<close> times the contribution the code accumulates (and would fail exactly when
  the code's fails).
\<close>

theorem pan_skip_gain:
  assumes "td_pan d = 0" "mono_or_stereo (td_audio d)"
  shows "pan_left 0 = sqrt 2 / 2 \<and> pan_right 0 = sqrt 2 / 2
       \<and> track_contribution_panned msr L d =
           (case track_contribution msr L d of
              Inl e \<Rightarrow> Inl e
            | Inr c \<Rightarrow> Inr (np_scale c (sqrt 2 / 2)))"
proof -
  define r where "r = (if td_sample_rate d \<noteq> msr
            then resample_audio (td_audio d) (td_sample_rate d) msr
            else Inr (td_audio d))"
  show ?thesis
  proof (cases r)
    case (Inl e)
    then show ?thesis
      by (simp add: pan_gains_centre track_contribution_def track_contribution_panned_def
          r_def [symmetric])
  next
    case (Inr a)
    then have "mono_or_stereo a"
      using assms(2) resample_audio_mono_or_stereo by (auto simp: r_def split: if_splits)
    from apply_pan_centre [OF this] show ?thesis
      using Inr assms(1)
      by (simp add: pan_gains_centre track_contribution_def track_contribution_panned_def
          r_def [symmetric] pan_stage_def fit_length_scale
          np_scale_commute [of _ "sqrt 2 / 2"])
  qed
qed

text \<open>C4 (amended) on one frame at 1 Hz mixed into three frames at 2 Hz.\<close>

theorem pan_skip_gain_witness:
  "pan_left 0 = sqrt 2 / 2 \<and> pan_right 0 = sqrt 2 / 2
   \<and> track_contribution_panned 2 3 ex_centre = Inr (np_scale (Arr2 3 [[1, 1, 0], [1, 1, 0]]) (sqrt 2 / 2))"
proof -
  have "track_contribution 2 3 ex_centre = Inr (Arr2 3 [[1, 1, 0], [1, 1, 0]])"
    by (simp add: track_contribution_def ex_centre_def pan_stage_def resample_audio_def
        py_truediv_def py_int_def resample_channel_def np_linspace_def np_interp_def
        np_arange_def numeral_2_eq_2 numeral_3_eq_3)
  then show ?thesis
    using pan_skip_gain [of ex_centre 2 3] by (simp add: ex_centre_def)
qed

section \<open>Fades longer than the buffer (C9)\<close>

lemma apply_fade_no_fade:
  assumes "py_int (fade_in_duration * real_of_int sample_rate) \<le> 0"
          "py_int (fade_out_duration * real_of_int sample_rate) \<le> 0"
  shows "apply_fade audio fade_in_duration fade_out_duration sample_rate = Inr audio"
  using assms by (simp add: apply_fade_def Let_def)

lemma apply_fade_in_too_long:
  assumes "xs \<noteq> []" "int (length xs) < py_int (fade_in_duration * real_of_int sample_rate)"
  shows "apply_fade (Arr1 xs) fade_in_duration fade_out_duration sample_rate
           = Inl (ValueError ''operands could not be broadcast together'')"
proof -
  define k where "k = py_int (fade_in_duration * real_of_int sample_rate)"
  have "1 \<le> int (length xs)" using assms(1) by (cases xs) auto
  then have k: "1 < k" "int (length xs) < k" using assms(2) by (auto simp: k_def)
  then obtain curve where c: "np_linspace 0 1 k = Inr curve" "length curve = nat k"
    using np_linspace_length [of k 0 1] by auto
  have "np_imul (take (nat k) xs) curve = Inl (ValueError ''operands could not be broadcast together'')"
    using k c(2) by (auto simp: np_imul_def)
  then show ?thesis
    using k c(1) by (simp add: apply_fade_def k_def [symmetric] fade_in_channel_def Let_def)
qed

text \<open>
  C9: a fade longer than the buffer is not clamped. A fade-in of one second on two frames
  at 4 Hz asks for a curve of four values, the slice of the buffer has two, and the
  in-place product raises on the shapes instead of returning a faded buffer. (The other
  half of C9 holds: an edge whose fade has no sample is left as it is.)
\<close>

theorem apply_fade_long_fade_in:
  "apply_fade (Arr1 [1, 1]) 1 0 4 = Inl (ValueError ''operands could not be broadcast together'')"
  by (simp add: apply_fade_def py_int_def np_linspace_def fade_in_channel_def np_imul_def)


section \<open>The delay and its fixed rate (C10)\<close>









section \<open>Determinism of the effects chain (C2)\<close>





lemma np_random_random_agree:
  assumes "\<forall>i < nat n. g1 i = g2 i"
  shows "fst (np_random_random g1 n) = fst (np_random_random g2 n)"
  using assms by (simp add: np_random_random_def)






end
